theory Spec2Isabelle
  imports Complex_Main
begin

section \<open>Quote of the day: the cache-aside endpoint of \<^verbatim>\<open>backend/main.py\<close>\<close>

text \<open>
  The program is a FastAPI application with two endpoints, \<^verbatim>\<open>/health\<close> and
  \<^verbatim>\<open>/quote\<close>. It talks to three collaborators that are not part of the repository:
  a Redis store (Upstash, over REST), the ZenQuotes HTTP API and the system clock. It
  also calls two library functions whose behaviour is fixed outside the repository:
  \<^verbatim>\<open>datetime.fromisoformat\<close> and \<^verbatim>\<open>json.loads\<close>.

  The embedding passes a \<open>world\<close> explicitly. The world holds the collaborators (what
  they answer, and whether they fail), the two library functions as parameters, and a
  trace of every call the program makes on a collaborator. Each function of the program
  takes the world and returns its result together with the world afterwards. Every
  \<^verbatim>\<open>raise\<close> of the source is a value \<open>Inl e\<close> of the result.

  Strings are lists of 8-bit characters, read as Unicode code points below 256.
\<close>

subsection \<open>Python values\<close>

text \<open>What \<^verbatim>\<open>json.loads\<close> returns. An object is the list of its items.\<close>

datatype json =
    JNull
  | JBool bool
  | JNum rat
  | JStr string
  | JArr "json list"
  | JObj "(string \<times> json) list"

text \<open>
  The exceptions that can leave the endpoints: FastAPI's \<^verbatim>\<open>HTTPException\<close> with its
  status code and detail, Python's \<^verbatim>\<open>AttributeError\<close> (a method looked up on a value
  that has none of that name), and an exception of the HTTP client (connection failure
  or timeout).
\<close>

datatype error =
    HTTPException int string
  | AttributeError
  | ClientError string

text \<open>Python's truth value of a JSON value, as \<^verbatim>\<open>or\<close> tests it.\<close>

fun truthy :: "json \<Rightarrow> bool" where
  "truthy JNull = False"
| "truthy (JBool b) = b"
| "truthy (JNum n) = (n \<noteq> 0)"
| "truthy (JStr s) = (s \<noteq> [])"
| "truthy (JArr xs) = (xs \<noteq> [])"
| "truthy (JObj kvs) = (kvs \<noteq> [])"

definition py_or :: "json \<Rightarrow> json \<Rightarrow> json" where
  "py_or a b = (if truthy a then a else b)"

text \<open>\<^verbatim>\<open>item.get(k)\<close>: only a dict has the method; a missing key gives \<^verbatim>\<open>None\<close>.\<close>

fun py_get :: "json \<Rightarrow> string \<Rightarrow> error + json" where
  "py_get (JObj kvs) k = Inr (case map_of kvs k of Some v \<Rightarrow> v | None \<Rightarrow> JNull)"
| "py_get _ k = Inl AttributeError"

text \<open>
  \<^verbatim>\<open>str.isspace\<close> on the code points below 256: tab to carriage return, the four
  separators 28 to 31, space, next line (133) and no-break space (160).
\<close>

definition isspace :: "char \<Rightarrow> bool" where
  "isspace c = ((of_char c :: nat) \<in> {9, 10, 11, 12, 13, 28, 29, 30, 31, 32, 133, 160})"

definition strip :: "string \<Rightarrow> string" where
  "strip s = rev (dropWhile isspace (rev (dropWhile isspace s)))"

text \<open>\<^verbatim>\<open>v.strip()\<close>: only a string has the method.\<close>

fun py_strip :: "json \<Rightarrow> error + string" where
  "py_strip (JStr s) = Inr (strip s)"
| "py_strip _ = Inl AttributeError"

subsection \<open>Decimal numbers and timestamps\<close>

definition digit_char :: "nat \<Rightarrow> char" where
  "digit_char d = ''0123456789'' ! d"

fun digits :: "nat \<Rightarrow> string" where
  "digits n = (if n < 10 then [digit_char n] else digits (n div 10) @ [digit_char (n mod 10)])"

definition str_int :: "int \<Rightarrow> string" where
  "str_int i = (if i < 0 then ''-'' @ digits (nat (- i)) else digits (nat i))"

definition zero_pad :: "nat \<Rightarrow> nat \<Rightarrow> string" where
  "zero_pad w n = replicate (w - length (digits n)) (CHR ''0'') @ digits n"

text \<open>
  A \<^verbatim>\<open>datetime\<close>. The program reads only the calendar date of a parsed request date,
  and prints only readings of the UTC clock, so the time zone is not a field.
\<close>

record datetime =
  year :: nat
  month :: nat
  day :: nat
  hour :: nat
  minute :: nat
  second :: nat
  microsecond :: nat

text \<open>\<^verbatim>\<open>dt.date()\<close>.\<close>

definition date_of :: "datetime \<Rightarrow> nat \<times> nat \<times> nat" where
  "date_of dt = (year dt, month dt, day dt)"

text \<open>
  \<^verbatim>\<open>isoformat()\<close> of a UTC reading: \<^verbatim>\<open>YYYY-MM-DDTHH:MM:SS[.ffffff]+00:00\<close>, the
  fraction left out when the microseconds are zero.
\<close>

definition isoformat :: "datetime \<Rightarrow> string" where
  "isoformat t =
     zero_pad 4 (year t) @ ''-'' @ zero_pad 2 (month t) @ ''-'' @ zero_pad 2 (day t) @ ''T''
     @ zero_pad 2 (hour t) @ '':'' @ zero_pad 2 (minute t) @ '':'' @ zero_pad 2 (second t)
     @ (if microsecond t = 0 then [] else ''.'' @ zero_pad 6 (microsecond t))
     @ ''+00:00''"

subsection \<open>The world\<close>

text \<open>A Redis hash, as \<^verbatim>\<open>hgetall\<close> returns it: the list of its fields and values.\<close>

type_synonym hash = "(string \<times> string) list"

text \<open>What the HTTP client gets from ZenQuotes: a status and a body, or an exception.\<close>

datatype upstream =
    Responded int string
  | Unreachable string

text \<open>The calls the program makes on its collaborators, and the lines it prints.\<close>

datatype event =
    CacheGet string
  | CacheSet string hash
  | ProviderCall string
  | Printed string

text \<open>
  \<^item> \<open>fromisoformat\<close>, \<open>json_loads\<close>: the two library functions; \<open>None\<close> where they raise.
  \<^item> \<open>utc_clock\<close>, \<open>ticks\<close>: the successive readings of \<^verbatim>\<open>datetime.now(timezone.utc)\<close> and
    the number of readings taken so far.
  \<^item> \<open>zenquotes\<close>: what a GET of a URL gets.
  \<^item> \<open>redis_data\<close>: the hash stored under each key (empty when the key is absent);
    \<open>hgetall_error\<close>, \<open>hset_error\<close>: the exception message when the command fails.
  \<^item> \<open>hset_effect\<close>: the hash the store holds under a key once a write has returned
    without an exception, from the fields written and the hash held before. Redis itself
    sets the fields given and keeps the others (\<open>ideal_hset\<close> below); a store that drops
    a write, or whose key another client changes before the next read, is another value.
  \<^item> \<open>trace\<close>: the events so far, oldest first.
\<close>

record world =
  fromisoformat :: "string \<Rightarrow> datetime option"
  json_loads :: "string \<Rightarrow> json option"
  utc_clock :: "nat \<Rightarrow> datetime"
  ticks :: nat
  zenquotes :: "string \<Rightarrow> upstream"
  redis_data :: "string \<Rightarrow> hash"
  hset_effect :: "hash \<Rightarrow> hash \<Rightarrow> hash"
  hgetall_error :: "string option"
  hset_error :: "string option"
  trace :: "event list"

definition emit :: "event \<Rightarrow> world \<Rightarrow> world" where
  "emit e W = W\<lparr>trace := trace W @ [e]\<rparr>"

text \<open>\<^verbatim>\<open>redis.hgetall(key)\<close>.\<close>

definition hgetall :: "world \<Rightarrow> string \<Rightarrow> (string + hash) \<times> world" where
  "hgetall W key =
     (case hgetall_error W of
        Some e \<Rightarrow> (Inl e, emit (CacheGet key) W)
      | None \<Rightarrow> (Inr (redis_data W key), emit (CacheGet key) W))"

text \<open>Writing one field of a hash: an existing field is overwritten in place.\<close>

fun put_field :: "string \<Rightarrow> string \<Rightarrow> hash \<Rightarrow> hash" where
  "put_field f v [] = [(f, v)]"
| "put_field f v ((g, w) # h) = (if g = f then (f, v) # h else (g, w) # put_field f v h)"

text \<open>What Redis does with a write: the fields given are set, the others are kept.\<close>

definition ideal_hset :: "hash \<Rightarrow> hash \<Rightarrow> hash" where
  "ideal_hset vals old = fold (\<lambda>(f, v). put_field f v) vals old"

text \<open>
  \<^verbatim>\<open>redis.hset(key, values=...)\<close>: a failed command leaves the store as it was; after a
  command that returns, the store holds what \<open>hset_effect\<close> says.
\<close>

definition hset :: "world \<Rightarrow> string \<Rightarrow> hash \<Rightarrow> (string + unit) \<times> world" where
  "hset W key vals =
     (case hset_error W of
        Some e \<Rightarrow> (Inl e, emit (CacheSet key vals) W)
      | None \<Rightarrow>
          (Inr (),
           emit (CacheSet key vals)
             (W\<lparr>redis_data :=
                  (redis_data W)(key := hset_effect W vals (redis_data W key))\<rparr>)))"

text \<open>\<^verbatim>\<open>datetime.now(timezone.utc)\<close>: the next reading of the clock.\<close>

definition now_utc :: "world \<Rightarrow> datetime \<times> world" where
  "now_utc W = (utc_clock W (ticks W), W\<lparr>ticks := Suc (ticks W)\<rparr>)"

subsection \<open>The program\<close>

definition rkey :: "string \<Rightarrow> string" where
  "rkey date_str = ''quote:'' @ date_str"

definition to_iso_now :: "world \<Rightarrow> string \<times> world" where
  "to_iso_now W = (case now_utc W of (t, W1) \<Rightarrow> (isoformat t, W1))"

definition format_date_or_400 :: "world \<Rightarrow> string \<Rightarrow> error + datetime" where
  "format_date_or_400 W date_str =
     (case fromisoformat W date_str of
        Some dt \<Rightarrow> Inr dt
      | None \<Rightarrow> Inl (HTTPException 400 ''Invalid date format, use YYYY-MM-DD''))"

definition today_url :: string where
  "today_url = ''https://zenquotes.io/api/today''"

definition random_url :: string where
  "random_url = ''https://zenquotes.io/api/random''"

text \<open>The dict \<^verbatim>\<open>fetch_zenquotes\<close> returns.\<close>

record fetched =
  fetched_text :: string
  fetched_author :: string

text \<open>
  Lines 64 to 68 of \<^verbatim>\<open>fetch_zenquotes\<close>, on \<^verbatim>\<open>item = data[0]\<close>:
  \<^verbatim>\<open>(item.get("q") or "").strip()\<close> and \<^verbatim>\<open>(item.get("a") or "Unknown").strip()\<close>, in
  this order.
\<close>

definition first_quote :: "json \<Rightarrow> error + fetched" where
  "first_quote item =
     (case py_get item ''q'' of
        Inl e \<Rightarrow> Inl e
      | Inr q \<Rightarrow>
          (case py_strip (py_or q (JStr [])) of
             Inl e \<Rightarrow> Inl e
           | Inr t \<Rightarrow>
               (case py_get item ''a'' of
                  Inl e \<Rightarrow> Inl e
                | Inr a \<Rightarrow>
                    (case py_strip (py_or a (JStr ''Unknown'')) of
                       Inl e \<Rightarrow> Inl e
                     | Inr au \<Rightarrow> Inr \<lparr>fetched_text = t, fetched_author = au\<rparr>))))"

text \<open>Lines 56 to 68: the checks on the response, then the first item.\<close>

definition read_response :: "world \<Rightarrow> int \<Rightarrow> string \<Rightarrow> error + fetched" where
  "read_response W status body =
     (if status \<noteq> 200
      then Inl (HTTPException 502 (''ZenQuotes '' @ str_int status @ '': '' @ take 160 body))
      else
        (case json_loads W body of
           None \<Rightarrow> Inl (HTTPException 502 (''ZenQuotes non-JSON: '' @ take 160 body))
         | Some data \<Rightarrow>
             (case data of
                JArr (item # rest) \<Rightarrow> first_quote item
              | _ \<Rightarrow> Inl (HTTPException 502 ''Unexpected ZenQuotes payload''))))"

definition fetch_zenquotes :: "world \<Rightarrow> bool \<Rightarrow> (error + fetched) \<times> world" where
  "fetch_zenquotes W is_today =
     (let url = (if is_today then today_url else random_url);
          W1 = emit (ProviderCall url) W
      in case zenquotes W url of
           Unreachable m \<Rightarrow> (Inl (ClientError m), W1)
         | Responded status body \<Rightarrow> (read_response W status body, W1))"

text \<open>The JSON response of \<^verbatim>\<open>/health\<close>: its status code and its fields.\<close>

record health_response =
  status_code :: int
  ok :: bool
  error_text :: "string option"

definition health_key :: string where
  "health_key = ''qotd:health''"

definition health :: "world \<Rightarrow> health_response \<times> world" where
  "health W =
     (case to_iso_now W of
        (ts, W1) \<Rightarrow>
          (case hset W1 health_key [(''ok'', ''1''), (''ts'', ts)] of
             (Inl e, W2) \<Rightarrow> (\<lparr>status_code = 500, ok = False, error_text = Some e\<rparr>, W2)
           | (Inr u, W2) \<Rightarrow>
               (case hgetall W2 health_key of
                  (Inl e, W3) \<Rightarrow> (\<lparr>status_code = 500, ok = False, error_text = Some e\<rparr>, W3)
                | (Inr probe, W3) \<Rightarrow>
                    (\<lparr>status_code = 200, ok = (map_of probe ''ok'' = Some ''1''),
                      error_text = None\<rparr>, W3))))"

text \<open>
  The JSON response of \<^verbatim>\<open>/quote\<close>: \<^verbatim>\<open>{date, text, author, source, stored_at}\<close>.
  \<^verbatim>\<open>stored_at\<close> is \<^verbatim>\<open>null\<close> when a cached hash has no such field.
\<close>

record quote =
  date :: string
  quote_text :: string
  author :: string
  source :: string
  stored_at :: "string option"

text \<open>
  Lines 97 to 104: \<^verbatim>\<open>cached and cached.get("text") and cached.get("author")\<close>, and the
  response built from the hash.
\<close>

definition cached_quote :: "string \<Rightarrow> hash \<Rightarrow> quote option" where
  "cached_quote date_str cached =
     (if cached \<noteq> []
         \<and> (case map_of cached ''text'' of Some t \<Rightarrow> t \<noteq> [] | None \<Rightarrow> False)
         \<and> (case map_of cached ''author'' of Some a \<Rightarrow> a \<noteq> [] | None \<Rightarrow> False)
      then Some \<lparr>date = date_str,
                 quote_text = the (map_of cached ''text''),
                 author = the (map_of cached ''author''),
                 source = (case map_of cached ''source'' of Some s \<Rightarrow> s | None \<Rightarrow> ''zenquotes''),
                 stored_at = map_of cached ''stored_at''\<rparr>
      else None)"

text \<open>Lines 95 to 107: the read of the cache, its exception caught and printed.\<close>

definition try_cache :: "world \<Rightarrow> string \<Rightarrow> string \<Rightarrow> quote option \<times> world" where
  "try_cache W key date_str =
     (case hgetall W key of
        (Inl e, W1) \<Rightarrow> (None, emit (Printed (''Redis HGETALL error: '' @ e)) W1)
      | (Inr cached, W1) \<Rightarrow> (cached_quote date_str cached, W1))"

text \<open>Lines 110 to 132: the fetch, the payload and the write, its exception caught.\<close>

definition fetch_and_store ::
  "world \<Rightarrow> datetime \<Rightarrow> string \<Rightarrow> string \<Rightarrow> (error + quote) \<times> world" where
  "fetch_and_store W dt date_str key =
     (case now_utc W of
        (now, W1) \<Rightarrow>
          (let is_today = (date_of dt = date_of now) in
           case fetch_zenquotes W1 is_today of
             (Inl e, W2) \<Rightarrow> (Inl e, W2)
           | (Inr q, W2) \<Rightarrow>
               (case to_iso_now W2 of
                  (ts, W3) \<Rightarrow>
                    (let payload = \<lparr>date = date_str, quote_text = fetched_text q,
                                    author = fetched_author q, source = ''zenquotes'',
                                    stored_at = Some ts\<rparr>
                     in case hset W3 key
                               [(''text'', quote_text payload), (''author'', author payload),
                                (''source'', source payload), (''stored_at'', ts)] of
                          (Inl e, W4) \<Rightarrow>
                            (Inr payload, emit (Printed (''Redis HSET error: '' @ e)) W4)
                        | (Inr u, W4) \<Rightarrow> (Inr payload, W4)))))"

definition get_quote :: "world \<Rightarrow> string \<Rightarrow> (error + quote) \<times> world" where
  "get_quote W date_str =
     (case format_date_or_400 W date_str of
        Inl e \<Rightarrow> (Inl e, W)
      | Inr dt \<Rightarrow>
          (let key = rkey date_str in
           case try_cache W key date_str of
             (Some hit, W1) \<Rightarrow> (Inr hit, W1)
           | (None, W1) \<Rightarrow> fetch_and_store W1 dt date_str key))"

subsection \<open>Reading the trace\<close>

text \<open>The events between two worlds: what a call added to the trace.\<close>

definition new_events :: "world \<Rightarrow> world \<Rightarrow> event list" where
  "new_events W W' = drop (length (trace W)) (trace W')"

fun is_provider_call :: "event \<Rightarrow> bool" where
  "is_provider_call (ProviderCall url) = True"
| "is_provider_call _ = False"

fun is_cache_write :: "event \<Rightarrow> bool" where
  "is_cache_write (CacheSet k vals) = True"
| "is_cache_write _ = False"

definition provider_calls :: "event list \<Rightarrow> nat" where
  "provider_calls evs = length (filter is_provider_call evs)"

definition cache_writes :: "event list \<Rightarrow> nat" where
  "cache_writes evs = length (filter is_cache_write evs)"

text \<open>The keys of the cache commands in a list of events, in order.\<close>

fun cache_keys :: "event list \<Rightarrow> string list" where
  "cache_keys [] = []"
| "cache_keys (CacheGet k # evs) = k # cache_keys evs"
| "cache_keys (CacheSet k vals # evs) = k # cache_keys evs"
| "cache_keys (e # evs) = cache_keys evs"

text \<open>The field names of the hashes written, one list per write, in order.\<close>

fun written_fields :: "event list \<Rightarrow> string list list" where
  "written_fields [] = []"
| "written_fields (CacheSet k vals # evs) = map fst vals # written_fields evs"
| "written_fields (e # evs) = written_fields evs"

subsection \<open>The words of the specification\<close>

text \<open>
  The validity rule of the specification: a cached record is worth a hit when its
  \<^verbatim>\<open>text\<close> and \<^verbatim>\<open>author\<close> fields are both present and non-empty.
\<close>

definition entry_valid :: "hash \<Rightarrow> bool" where
  "entry_valid h =
     (map_of h ''text'' \<notin> {None, Some []} \<and> map_of h ''author'' \<notin> {None, Some []})"

text \<open>The read of the cache for a date returns a valid record (and does not raise).\<close>

definition cache_hit :: "world \<Rightarrow> string \<Rightarrow> bool" where
  "cache_hit W date_str =
     (case fst (hgetall W (rkey date_str)) of Inl e \<Rightarrow> False | Inr h \<Rightarrow> entry_valid h)"

text \<open>
  The record the specification builds on a miss from the two fields fetched and the
  timestamp.
\<close>

definition fresh_record :: "string \<Rightarrow> fetched \<Rightarrow> string \<Rightarrow> quote" where
  "fresh_record date_str q ts =
     \<lparr>date = date_str, quote_text = fetched_text q, author = fetched_author q,
      source = ''zenquotes'', stored_at = Some ts\<rparr>"

text \<open>
  The round trip of the health probe: the write of the probe hash under the probe key,
  and the read of that key after it.
\<close>

definition probe_write :: "world \<Rightarrow> string + unit" where
  "probe_write W =
     fst (hset (snd (to_iso_now W)) health_key
            [(''ok'', ''1''), (''ts'', fst (to_iso_now W))])"

definition probe_read :: "world \<Rightarrow> string + hash" where
  "probe_read W =
     fst (hgetall
            (snd (hset (snd (to_iso_now W)) health_key
                    [(''ok'', ''1''), (''ts'', fst (to_iso_now W))]))
            health_key)"

text \<open>\<^verbatim>\<open>UpstreamError\<close>: the gateway error, status 502.\<close>

fun is_upstream_error :: "error \<Rightarrow> bool" where
  "is_upstream_error (HTTPException code detail) = (code = 502)"
| "is_upstream_error _ = False"

text \<open>A payload that passes the check of line 62: a list that is not empty.\<close>

fun nonempty_array :: "json \<Rightarrow> bool" where
  "nonempty_array (JArr (item # rest)) = True"
| "nonempty_array _ = False"

text \<open>\<^verbatim>\<open>InvalidDateError\<close>: the client error, status 400.\<close>

fun is_invalid_date_error :: "error \<Rightarrow> bool" where
  "is_invalid_date_error (HTTPException code detail) = (code = 400)"
| "is_invalid_date_error _ = False"

subsection \<open>A world to run the program in\<close>

text \<open>
  The general theorems below hold for every world. Their instances are run in the
  world of this section: an empty store that answers, a clock at noon of 1 January
  2024 (UTC) that advances one second per reading, and a provider that answers every
  request with one quote. Its store writes as Redis does. For \<open>fromisoformat\<close> the
  world has a reader of the date-only form \<^verbatim>\<open>YYYY-MM-DD\<close>; for \<open>json_loads\<close> it has
  a table of the bodies the examples use.
\<close>

definition digit_val :: "char \<Rightarrow> nat option" where
  "digit_val c =
     (let n = (of_char c :: nat) in if 48 \<le> n \<and> n \<le> 57 then Some (n - 48) else None)"

fun number :: "string \<Rightarrow> nat \<Rightarrow> nat option" where
  "number [] acc = Some acc"
| "number (c # cs) acc =
     (case digit_val c of None \<Rightarrow> None | Some d \<Rightarrow> number cs (10 * acc + d))"

definition days_in_month :: "nat \<Rightarrow> nat \<Rightarrow> nat" where
  "days_in_month y m =
     (if m = 2 then (if y mod 4 = 0 \<and> (y mod 100 \<noteq> 0 \<or> y mod 400 = 0) then 29 else 28)
      else if m = 4 \<or> m = 6 \<or> m = 9 \<or> m = 11 then 30 else 31)"

definition midnight :: "nat \<Rightarrow> nat \<Rightarrow> nat \<Rightarrow> datetime" where
  "midnight y m d =
     \<lparr>year = y, month = m, day = d, hour = 0, minute = 0, second = 0, microsecond = 0\<rparr>"

definition iso_date :: "string \<Rightarrow> datetime option" where
  "iso_date s =
     (if length s = 10 \<and> s ! 4 = CHR ''-'' \<and> s ! 7 = CHR ''-''
      then (case (number (take 4 s) 0, number (take 2 (drop 5 s)) 0, number (drop 8 s) 0) of
              (Some y, Some m, Some d) \<Rightarrow>
                if 1 \<le> y \<and> 1 \<le> m \<and> m \<le> 12 \<and> 1 \<le> d \<and> d \<le> days_in_month y m
                then Some (midnight y m d) else None
            | _ \<Rightarrow> None)
      else None)"

definition noon_plus :: "nat \<Rightarrow> datetime" where
  "noon_plus n =
     \<lparr>year = 2024, month = 1, day = 1, hour = 12, minute = 0, second = n, microsecond = 0\<rparr>"

definition carpe_body :: string where
  \<open>carpe_body = ''[{"q": "Carpe diem", "a": "Horace"}]''\<close>

definition padded_body :: string where
  \<open>padded_body = ''[{"q": "  Carpe diem ", "a": ""}]''\<close>

definition blank_author_body :: string where
  \<open>blank_author_body = ''[{"q": "Stay curious.", "a": "   "}]''\<close>

definition example_loads :: "string \<Rightarrow> json option" where
  "example_loads =
     map_of
       [(carpe_body, JArr [JObj [(''q'', JStr ''Carpe diem''), (''a'', JStr ''Horace'')]]),
        (padded_body, JArr [JObj [(''q'', JStr ''  Carpe diem ''), (''a'', JStr [])]]),
        (blank_author_body, JArr [JObj [(''q'', JStr ''Stay curious.''), (''a'', JStr ''   '')]]),
        (''[]'', JArr []),
        (''{}'', JObj []),
        (''[1]'', JArr [JNum 1])]"

text \<open>The provider answering every request with one status and body.\<close>

definition answering :: "int \<Rightarrow> string \<Rightarrow> string \<Rightarrow> upstream" where
  "answering status body = (\<lambda>url. Responded status body)"

definition example_world :: world where
  "example_world =
     \<lparr>fromisoformat = iso_date, json_loads = example_loads, utc_clock = noon_plus, ticks = 0,
      zenquotes = answering 200 carpe_body, redis_data = (\<lambda>k. []),
      hset_effect = ideal_hset, hgetall_error = None, hset_error = None, trace = []\<rparr>"

text \<open>The store holding one hash under the key of 1 January 2024.\<close>

definition store_with :: "hash \<Rightarrow> string \<Rightarrow> hash" where
  "store_with h = (\<lambda>k. if k = ''quote:2024-01-01'' then h else [])"

text \<open>The store of the specification's example of a hit.\<close>

definition kind_world :: world where
  "kind_world =
     example_world\<lparr>redis_data := store_with [(''text'', ''Be kind.''), (''author'', ''Anon'')]\<rparr>"

text \<open>A store whose record for the date has an empty text.\<close>

definition empty_text_world :: world where
  "empty_text_world =
     example_world\<lparr>redis_data := store_with [(''text'', []), (''author'', ''Anon'')]\<rparr>"

text \<open>A store that fails on every read and every write.\<close>

definition down_world :: world where
  "down_world =
     example_world\<lparr>hgetall_error := Some ''connection refused'',
                   hset_error := Some ''connection refused''\<rparr>"

text \<open>A store that answers every write without an exception and drops it.\<close>

definition lossy_world :: world where
  "lossy_world = example_world\<lparr>hset_effect := (\<lambda>vals old. old)\<rparr>"

text \<open>A store whose reads fail while its writes succeed.\<close>

definition unreadable_world :: world where
  "unreadable_world = example_world\<lparr>hgetall_error := Some ''timeout''\<rparr>"

text \<open>A provider whose quote has an author of three spaces.\<close>

definition blank_author_world :: world where
  "blank_author_world = example_world\<lparr>zenquotes := answering 200 blank_author_body\<rparr>"

text \<open>A provider whose array holds a number where the quote object is expected.\<close>

definition bare_number_world :: world where
  "bare_number_world = example_world\<lparr>zenquotes := answering 200 ''[1]''\<rparr>"

section \<open>Properties\<close>


subsection \<open>Evaluation rules\<close>

lemma replicate_numeral: "replicate (numeral k) x = x # replicate (pred_numeral k) x"
  by (simp add: numeral_eq_Suc)

lemma trace_emit: "trace (emit e W) = trace W @ [e]"
  by (simp add: emit_def)

lemma emit_frame:
  "fromisoformat (emit e W) = fromisoformat W"
  "redis_data (emit e W) = redis_data W"
  "hgetall_error (emit e W) = hgetall_error W"
  "hset_error (emit e W) = hset_error W"
  by (simp_all add: emit_def)

lemma try_cache_eq:
  "try_cache W key d =
     (case hgetall_error W of
        Some e \<Rightarrow>
          (None, W\<lparr>trace := trace W @ [CacheGet key, Printed (''Redis HGETALL error: '' @ e)]\<rparr>)
      | None \<Rightarrow> (cached_quote d (redis_data W key), W\<lparr>trace := trace W @ [CacheGet key]\<rparr>))"
  by (simp add: try_cache_def hgetall_def emit_def split: option.splits)

lemma fetch_zenquotes_eq:
  "fetch_zenquotes W b =
     ((case zenquotes W (if b then today_url else random_url) of
         Unreachable m \<Rightarrow> Inl (ClientError m)
       | Responded status body \<Rightarrow> read_response W status body),
      W\<lparr>trace := trace W @ [ProviderCall (if b then today_url else random_url)]\<rparr>)"
  by (simp add: fetch_zenquotes_def emit_def Let_def split: upstream.splits)


lemma cached_quote_valid:
  "cached_quote d h = (if entry_valid h then Some \<lparr>date = d, quote_text = the (map_of h ''text''),
       author = the (map_of h ''author''),
       source = (case map_of h ''source'' of Some s \<Rightarrow> s | None \<Rightarrow> ''zenquotes''),
       stored_at = map_of h ''stored_at''\<rparr> else None)"
  by (auto simp: cached_quote_def entry_valid_def split: option.splits)

subsection \<open>A date that does not parse\<close>

text \<open>
  Claim C3. A date that \<^verbatim>\<open>fromisoformat\<close> does not read is answered with the
  \<^verbatim>\<open>HTTPException\<close> of status 400, and the world is left as it was: no call on the cache
  and none on the provider.
\<close>
theorem invalid_date_rejected:
  assumes "fromisoformat W date_str = None"
  shows "get_quote W date_str
           = (Inl (HTTPException 400 ''Invalid date format, use YYYY-MM-DD''), W)
         \<and> is_invalid_date_error (HTTPException 400 ''Invalid date format, use YYYY-MM-DD'')
         \<and> new_events W (snd (get_quote W date_str)) = []"
  using assms by (simp add: get_quote_def format_date_or_400_def new_events_def)

lemma iso_date_not_a_date: "iso_date ''not-a-date'' = None"
  by (simp add: iso_date_def digit_val_def)

lemma iso_date_empty: "iso_date [] = None"
  by (simp add: iso_date_def)

text \<open>An instance of claim C3 in the example world.\<close>
theorem invalid_date_rejected_witness:
  "fromisoformat example_world ''not-a-date'' = None
   \<and> fromisoformat example_world [] = None
   \<and> get_quote example_world ''not-a-date''
       = (Inl (HTTPException 400 ''Invalid date format, use YYYY-MM-DD''), example_world)
   \<and> get_quote example_world []
       = (Inl (HTTPException 400 ''Invalid date format, use YYYY-MM-DD''), example_world)
   \<and> new_events example_world (snd (get_quote example_world ''not-a-date'')) = []"
proof -
  have a: "fromisoformat example_world ''not-a-date'' = None"
    by (simp add: example_world_def iso_date_not_a_date)
  have b: "fromisoformat example_world [] = None"
    by (simp add: example_world_def iso_date_empty)
  show ?thesis
    using a b invalid_date_rejected [OF a] invalid_date_rejected [OF b]
    by (simp add: new_events_def)
qed

subsection \<open>The hit path and the miss path, written out\<close>

lemma new_events_append: "trace W' = trace W @ evs \<Longrightarrow> new_events W W' = evs"
  by (simp add: new_events_def)

lemma fetch_zenquotes_frame:
  "zenquotes W' = zenquotes W \<Longrightarrow> json_loads W' = json_loads W \<Longrightarrow>
   fst (fetch_zenquotes W' b) = fst (fetch_zenquotes W b)"
  by (simp add: fetch_zenquotes_eq read_response_def split: upstream.splits)

lemma fetch_zenquotes_after_tick:
  "fetch_zenquotes (W\<lparr>ticks := n\<rparr>) b =
     (fst (fetch_zenquotes W b),
      W\<lparr>ticks := n, trace := trace W @ [ProviderCall (if b then today_url else random_url)]\<rparr>)"
  by (simp add: fetch_zenquotes_eq read_response_def split: upstream.splits)

lemma hset_eq:
  "hset W key vals =
     (case hset_error W of Some e \<Rightarrow> Inl e | None \<Rightarrow> Inr (),
      W\<lparr>redis_data :=
           (case hset_error W of
              Some e \<Rightarrow> redis_data W
            | None \<Rightarrow> (redis_data W)(key := hset_effect W vals (redis_data W key))),
         trace := trace W @ [CacheSet key vals]\<rparr>)"
  by (simp add: hset_def emit_def split: option.splits)


lemma fetch_and_store_eq:
  "fetch_and_store W dt d key =
     (case fst (fetch_zenquotes W (date_of dt = date_of (utc_clock W (ticks W)))) of
        Inl e \<Rightarrow>
          (Inl e,
           W\<lparr>ticks := Suc (ticks W),
              trace := trace W @
                [ProviderCall (if date_of dt = date_of (utc_clock W (ticks W))
                               then today_url else random_url)]\<rparr>)
      | Inr q \<Rightarrow>
          (Inr (fresh_record d q (isoformat (utc_clock W (Suc (ticks W))))),
           W\<lparr>ticks := Suc (Suc (ticks W)),
              redis_data :=
                (case hset_error W of
                   Some e \<Rightarrow> redis_data W
                 | None \<Rightarrow>
                     (redis_data W)
                       (key := hset_effect W
                          [(''text'', fetched_text q), (''author'', fetched_author q),
                           (''source'', ''zenquotes''),
                           (''stored_at'', isoformat (utc_clock W (Suc (ticks W))))]
                          (redis_data W key))),
              trace := trace W @
                ProviderCall (if date_of dt = date_of (utc_clock W (ticks W))
                              then today_url else random_url) #
                CacheSet key
                  [(''text'', fetched_text q), (''author'', fetched_author q),
                   (''source'', ''zenquotes''),
                   (''stored_at'', isoformat (utc_clock W (Suc (ticks W))))] #
                (case hset_error W of
                   None \<Rightarrow> []
                 | Some e \<Rightarrow> [Printed (''Redis HSET error: '' @ e)])\<rparr>))"
proof (cases "fst (fetch_zenquotes W (date_of dt = date_of (utc_clock W (ticks W))))")
  case (Inl e)
  then show ?thesis
    by (simp add: fetch_and_store_def now_utc_def fetch_zenquotes_after_tick Let_def
        split del: if_split)
next
  case (Inr q)
  then show ?thesis
    by (cases "hset_error W")
       (simp_all add: fetch_and_store_def now_utc_def to_iso_now_def fetch_zenquotes_after_tick
          hset_eq emit_def fresh_record_def Let_def split del: if_split)
qed


lemma fetch_and_store_result:
  "fst (fetch_and_store W dt d key) =
     (case fst (fetch_zenquotes W (date_of dt = date_of (utc_clock W (ticks W)))) of
        Inl e \<Rightarrow> Inl e
      | Inr q \<Rightarrow> Inr (fresh_record d q (isoformat (utc_clock W (Suc (ticks W))))))"
  by (simp add: fetch_and_store_eq Let_def split: sum.splits)

lemma fetch_and_store_trace:
  "trace (snd (fetch_and_store W dt d key)) =
     trace W @
     ProviderCall (if date_of dt = date_of (utc_clock W (ticks W)) then today_url else random_url) #
     (case fst (fetch_zenquotes W (date_of dt = date_of (utc_clock W (ticks W)))) of
        Inl e \<Rightarrow> []
      | Inr q \<Rightarrow>
          CacheSet key
            [(''text'', fetched_text q), (''author'', fetched_author q),
             (''source'', ''zenquotes''),
             (''stored_at'', isoformat (utc_clock W (Suc (ticks W))))] #
          (case hset_error W of None \<Rightarrow> [] | Some e \<Rightarrow> [Printed (''Redis HSET error: '' @ e)]))"
  by (simp add: fetch_and_store_eq Let_def split: sum.splits)


lemma get_quote_parsed:
  "fromisoformat W d = Some dt \<Longrightarrow>
   get_quote W d =
     (case try_cache W (rkey d) d of
        (Some hit, W1) \<Rightarrow> (Inr hit, W1)
      | (None, W1) \<Rightarrow> fetch_and_store W1 dt d (rkey d))"
  by (simp add: get_quote_def format_date_or_400_def Let_def)

lemma cache_hit_eq: "cache_hit W d = (hgetall_error W = None \<and> entry_valid (redis_data W (rkey d)))"
  by (simp add: cache_hit_def hgetall_def split: option.splits)

lemma get_quote_hit:
  "fromisoformat W d = Some dt \<Longrightarrow> cache_hit W d \<Longrightarrow>
   get_quote W d =
     (Inr \<lparr>date = d, quote_text = the (map_of (redis_data W (rkey d)) ''text''),
           author = the (map_of (redis_data W (rkey d)) ''author''),
           source = (case map_of (redis_data W (rkey d)) ''source'' of
                       Some s \<Rightarrow> s | None \<Rightarrow> ''zenquotes''),
           stored_at = map_of (redis_data W (rkey d)) ''stored_at''\<rparr>,
      emit (CacheGet (rkey d)) W)"
  by (simp add: get_quote_parsed try_cache_eq cache_hit_eq cached_quote_valid emit_def)

lemma get_quote_miss:
  "fromisoformat W d = Some dt \<Longrightarrow> \<not> cache_hit W d \<Longrightarrow>
   get_quote W d = fetch_and_store (snd (try_cache W (rkey d) d)) dt d (rkey d)"
  by (cases "hgetall_error W")
     (simp_all add: get_quote_parsed try_cache_eq cache_hit_eq cached_quote_valid)

lemma try_cache_frame:
  "utc_clock (snd (try_cache W k d)) = utc_clock W"
  "ticks (snd (try_cache W k d)) = ticks W"
  "zenquotes (snd (try_cache W k d)) = zenquotes W"
  "json_loads (snd (try_cache W k d)) = json_loads W"
  "hset_error (snd (try_cache W k d)) = hset_error W"
  "redis_data (snd (try_cache W k d)) = redis_data W"
  "hset_effect (snd (try_cache W k d)) = hset_effect W"
  by (simp_all add: try_cache_eq split: option.splits)

lemma try_cache_trace:
  "trace (snd (try_cache W k d)) =
     trace W @ CacheGet k #
       (case hgetall_error W of None \<Rightarrow> [] | Some e \<Rightarrow> [Printed (''Redis HGETALL error: '' @ e)])"
  by (simp add: try_cache_eq split: option.splits)

text \<open>The events of a request that misses the cache.\<close>

lemma get_quote_miss_events:
  assumes "fromisoformat W d = Some dt" and "\<not> cache_hit W d"
  shows "new_events W (snd (get_quote W d)) =
     CacheGet (rkey d) #
     (case hgetall_error W of None \<Rightarrow> [] | Some e \<Rightarrow> [Printed (''Redis HGETALL error: '' @ e)]) @
     ProviderCall (if date_of dt = date_of (utc_clock W (ticks W)) then today_url else random_url) #
     (case fst (fetch_zenquotes W (date_of dt = date_of (utc_clock W (ticks W)))) of
        Inl e \<Rightarrow> []
      | Inr q \<Rightarrow>
          CacheSet (rkey d)
            [(''text'', fetched_text q), (''author'', fetched_author q),
             (''source'', ''zenquotes''),
             (''stored_at'', isoformat (utc_clock W (Suc (ticks W))))] #
          (case hset_error W of None \<Rightarrow> [] | Some e \<Rightarrow> [Printed (''Redis HSET error: '' @ e)]))"
proof -
  let ?W1 = "snd (try_cache W (rkey d) d)"
  have f: "fst (fetch_zenquotes ?W1 b) = fst (fetch_zenquotes W b)" for b
    by (rule fetch_zenquotes_frame) (simp_all add: try_cache_frame)
  show ?thesis
    by (rule new_events_append)
       (simp add: get_quote_miss [OF assms] fetch_and_store_trace try_cache_frame
          try_cache_trace f split: sum.splits option.splits)
qed

lemma get_quote_miss_result:
  assumes "fromisoformat W d = Some dt" and "\<not> cache_hit W d"
  shows "fst (get_quote W d) =
     (case fst (fetch_zenquotes W (date_of dt = date_of (utc_clock W (ticks W)))) of
        Inl e \<Rightarrow> Inl e
      | Inr q \<Rightarrow> Inr (fresh_record d q (isoformat (utc_clock W (Suc (ticks W))))))"
proof -
  let ?W1 = "snd (try_cache W (rkey d) d)"
  have f: "fst (fetch_zenquotes ?W1 b) = fst (fetch_zenquotes W b)" for b
    by (rule fetch_zenquotes_frame) (simp_all add: try_cache_frame)
  show ?thesis
    by (simp add: get_quote_miss [OF assms] fetch_and_store_result try_cache_frame f
        split: sum.splits)
qed

lemma get_quote_hit_events:
  "fromisoformat W d = Some dt \<Longrightarrow> cache_hit W d \<Longrightarrow>
   new_events W (snd (get_quote W d)) = [CacheGet (rkey d)]"
  by (rule new_events_append) (simp add: get_quote_hit emit_def)


lemma new_events_update: "new_events W (W\<lparr>trace := trace W @ evs\<rparr>) = evs"
  by (simp add: new_events_def)

lemma new_events_same: "new_events W W = []"
  by (simp add: new_events_def)

lemma get_quote_unparsed_events:
  "fromisoformat W d = None \<Longrightarrow> new_events W (snd (get_quote W d)) = []"
  by (simp add: get_quote_def format_date_or_400_def new_events_def)

lemma provider_calls_miss:
  assumes "fromisoformat W d = Some dt" and "\<not> cache_hit W d"
  shows "filter is_provider_call (new_events W (snd (get_quote W d))) =
     [ProviderCall (if date_of dt = date_of (utc_clock W (ticks W)) then today_url else random_url)]"
  by (simp add: get_quote_miss_events [OF assms] split: option.splits sum.splits)

lemma cache_keys_miss:
  assumes "fromisoformat W d = Some dt" and "\<not> cache_hit W d"
  shows "cache_keys (new_events W (snd (get_quote W d))) =
     (case fst (fetch_zenquotes W (date_of dt = date_of (utc_clock W (ticks W)))) of
        Inl e \<Rightarrow> [rkey d] | Inr q \<Rightarrow> [rkey d, rkey d])"
  by (simp add: get_quote_miss_events [OF assms] split: option.splits sum.splits)

lemma written_fields_miss:
  assumes "fromisoformat W d = Some dt" and "\<not> cache_hit W d"
  shows "written_fields (new_events W (snd (get_quote W d))) =
     (case fst (fetch_zenquotes W (date_of dt = date_of (utc_clock W (ticks W)))) of
        Inl e \<Rightarrow> [] | Inr q \<Rightarrow> [[''text'', ''author'', ''source'', ''stored_at'']])"
  by (simp add: get_quote_miss_events [OF assms] split: option.splits sum.splits)

subsection \<open>The cache-aside policy\<close>

text \<open>
  Claim C1. For a date that parses, the request is served from the cache exactly when
  the read of the cache returns a hash whose \<^verbatim>\<open>text\<close> and \<^verbatim>\<open>author\<close> are both present and
  non-empty. Then the response is built from the hash (\<^verbatim>\<open>source\<close> is \<^verbatim>\<open>zenquotes\<close> when
  the hash has none, \<^verbatim>\<open>stored_at\<close> is the hash's, if any), the only event is the read, and
  the store is as before: no provider call, no write. Otherwise (the read raised, or
  \<^verbatim>\<open>text\<close> or \<^verbatim>\<open>author\<close> is missing or empty) the provider is called once and the response
  is the one built from its answer.
\<close>
theorem served_from_cache_iff_valid_entry:
  assumes "fromisoformat W d = Some dt"
  shows "(cache_hit W d \<longleftrightarrow> provider_calls (new_events W (snd (get_quote W d))) = 0)
    \<and> (\<forall>h. fst (hgetall W (rkey d)) = Inr h \<and> entry_valid h \<longrightarrow>
          fst (get_quote W d) =
            Inr \<lparr>date = d, quote_text = the (map_of h ''text''),
                 author = the (map_of h ''author''),
                 source = (case map_of h ''source'' of Some s \<Rightarrow> s | None \<Rightarrow> ''zenquotes''),
                 stored_at = map_of h ''stored_at''\<rparr>
          \<and> new_events W (snd (get_quote W d)) = [CacheGet (rkey d)]
          \<and> provider_calls (new_events W (snd (get_quote W d))) = 0
          \<and> cache_writes (new_events W (snd (get_quote W d))) = 0
          \<and> redis_data (snd (get_quote W d)) = redis_data W)
    \<and> (\<not> cache_hit W d \<longrightarrow>
          provider_calls (new_events W (snd (get_quote W d))) = 1
          \<and> fst (get_quote W d) =
              (case fst (fetch_zenquotes W (date_of dt = date_of (utc_clock W (ticks W)))) of
                 Inl e \<Rightarrow> Inl e
               | Inr q \<Rightarrow> Inr (fresh_record d q (isoformat (utc_clock W (Suc (ticks W)))))))"
proof (cases "cache_hit W d")
  case True
  have ev: "new_events W (snd (get_quote W d)) = [CacheGet (rkey d)]"
    by (rule get_quote_hit_events [OF assms True])
  have h: "fst (hgetall W (rkey d)) = Inr (redis_data W (rkey d))"
    using True by (simp add: cache_hit_eq hgetall_def)
  show ?thesis
    using True
    by (simp add: h provider_calls_def cache_writes_def get_quote_hit [OF assms True] emit_def
        new_events_update)
next
  case False
  have "\<not> (fst (hgetall W (rkey d)) = Inr h \<and> entry_valid h)" for h
    using False by (auto simp: cache_hit_def)
  then show ?thesis
    using False
    by (simp add: provider_calls_def provider_calls_miss [OF assms False]
        get_quote_miss_result [OF assms False])
qed

text \<open>
  Claim C5. On a miss, exactly one provider endpoint is requested: \<^verbatim>\<open>/today\<close> when the
  calendar date of the parsed request date equals the calendar date of the UTC clock,
  \<^verbatim>\<open>/random\<close> for every other date.
\<close>
theorem endpoint_chosen_by_utc_date:
  assumes "fromisoformat W d = Some dt" and "\<not> cache_hit W d"
  shows "filter is_provider_call (new_events W (snd (get_quote W d))) =
     [ProviderCall (if date_of dt = date_of (utc_clock W (ticks W))
                    then ''https://zenquotes.io/api/today''
                    else ''https://zenquotes.io/api/random'')]"
  using provider_calls_miss [OF assms] by (simp add: today_url_def random_url_def)

text \<open>
  Claim C7. The storage key is the prefix \<^verbatim>\<open>quote:\<close> followed by the date string as
  given; two different date strings have different keys; and every cache command of a
  request, read or write, uses that key.
\<close>
theorem storage_key_is_prefix_and_literal_date:
  "rkey d = ''quote:'' @ d
   \<and> (rkey d = rkey d' \<longrightarrow> d = d')
   \<and> (\<forall>k \<in> set (cache_keys (new_events W (snd (get_quote W d)))). k = ''quote:'' @ d)"
proof (cases "fromisoformat W d")
  case None
  then show ?thesis
    by (simp add: get_quote_unparsed_events rkey_def)
next
  case (Some dt)
  show ?thesis
  proof (cases "cache_hit W d")
    case True
    then show ?thesis
      by (simp add: get_quote_hit_events [OF Some True] rkey_def)
  next
    case False
    then show ?thesis
      by (simp add: cache_keys_miss [OF Some False] rkey_def split: sum.splits)
  qed
qed

text \<open>
  Claim C10. Every write of a request stores exactly the four fields \<^verbatim>\<open>text\<close>,
  \<^verbatim>\<open>author\<close>, \<^verbatim>\<open>source\<close> and \<^verbatim>\<open>stored_at\<close>, so never a \<^verbatim>\<open>date\<close>; and the \<^verbatim>\<open>date\<close> of every
  response, on a hit and on a miss, is the date string of the request.
\<close>
theorem date_echoed_never_stored:
  "(\<forall>fs \<in> set (written_fields (new_events W (snd (get_quote W d)))).
       fs = [''text'', ''author'', ''source'', ''stored_at''])
   \<and> (\<forall>r. fst (get_quote W d) = Inr r \<longrightarrow> date r = d)"
proof (cases "fromisoformat W d")
  case None
  then show ?thesis
    by (simp add: get_quote_def format_date_or_400_def new_events_same)
next
  case (Some dt)
  show ?thesis
  proof (cases "cache_hit W d")
    case True
    then show ?thesis
      by (simp add: get_quote_hit [OF Some True] emit_def new_events_update)
  next
    case False
    then show ?thesis
      by (auto simp: written_fields_miss [OF Some False] get_quote_miss_result [OF Some False]
          fresh_record_def split: sum.splits)
  qed
qed


lemma cache_hit_hset_error: "cache_hit (W\<lparr>hset_error := w\<rparr>) d = cache_hit W d"
  by (simp add: cache_hit_eq)

text \<open>
  Claim C2. For a date that parses, a failing cache never fails the request. The
  response does not depend on whether the write succeeds. When the read and the write
  both raise, both exceptions are caught and printed, the provider is called once, and
  the response is the record built from what the provider returned (or the provider's
  own error).
\<close>
theorem cache_failures_absorbed:
  assumes "fromisoformat W d = Some dt"
  shows "fst (get_quote (W\<lparr>hset_error := w\<rparr>) d) = fst (get_quote W d)
    \<and> (\<forall>g s. hgetall_error W = Some g \<and> hset_error W = Some s \<longrightarrow>
          fst (get_quote W d) =
            (case fst (fetch_zenquotes W (date_of dt = date_of (utc_clock W (ticks W)))) of
               Inl e \<Rightarrow> Inl e
             | Inr q \<Rightarrow> Inr (fresh_record d q (isoformat (utc_clock W (Suc (ticks W))))))
          \<and> provider_calls (new_events W (snd (get_quote W d))) = 1
          \<and> (\<forall>q. fst (fetch_zenquotes W (date_of dt = date_of (utc_clock W (ticks W)))) = Inr q \<longrightarrow>
                new_events W (snd (get_quote W d)) =
                  [CacheGet (rkey d),
                   Printed (''Redis HGETALL error: '' @ g),
                   ProviderCall (if date_of dt = date_of (utc_clock W (ticks W))
                                 then today_url else random_url),
                   CacheSet (rkey d)
                     [(''text'', fetched_text q), (''author'', fetched_author q),
                      (''source'', ''zenquotes''),
                      (''stored_at'', isoformat (utc_clock W (Suc (ticks W))))],
                   Printed (''Redis HSET error: '' @ s)]))"
proof -
  let ?W' = "W\<lparr>hset_error := w\<rparr>"
  have p: "fromisoformat ?W' d = Some dt"
    using assms by simp
  have f: "fst (fetch_zenquotes ?W' b) = fst (fetch_zenquotes W b)" for b
    by (rule fetch_zenquotes_frame) simp_all
  have indep: "fst (get_quote ?W' d) = fst (get_quote W d)"
  proof (cases "cache_hit W d")
    case True
    then have "cache_hit ?W' d"
      by (simp add: cache_hit_hset_error)
    then show ?thesis
      using True by (simp add: get_quote_hit [OF p] get_quote_hit [OF assms])
  next
    case False
    then have "\<not> cache_hit ?W' d"
      by (simp add: cache_hit_hset_error)
    then show ?thesis
      using False
      by (simp add: get_quote_miss_result [OF p] get_quote_miss_result [OF assms] f
          split: sum.splits)
  qed
  have down: "fst (get_quote W d) =
            (case fst (fetch_zenquotes W (date_of dt = date_of (utc_clock W (ticks W)))) of
               Inl e \<Rightarrow> Inl e
             | Inr q \<Rightarrow> Inr (fresh_record d q (isoformat (utc_clock W (Suc (ticks W))))))
          \<and> provider_calls (new_events W (snd (get_quote W d))) = 1
          \<and> (\<forall>q. fst (fetch_zenquotes W (date_of dt = date_of (utc_clock W (ticks W)))) = Inr q \<longrightarrow>
                new_events W (snd (get_quote W d)) =
                  [CacheGet (rkey d),
                   Printed (''Redis HGETALL error: '' @ g),
                   ProviderCall (if date_of dt = date_of (utc_clock W (ticks W))
                                 then today_url else random_url),
                   CacheSet (rkey d)
                     [(''text'', fetched_text q), (''author'', fetched_author q),
                      (''source'', ''zenquotes''),
                      (''stored_at'', isoformat (utc_clock W (Suc (ticks W))))],
                   Printed (''Redis HSET error: '' @ s)])"
    if g: "hgetall_error W = Some g" and s: "hset_error W = Some s" for g s
  proof -
    have miss: "\<not> cache_hit W d"
      using g by (simp add: cache_hit_eq)
    have calls: "provider_calls (new_events W (snd (get_quote W d))) = 1"
      by (simp add: provider_calls_def provider_calls_miss [OF assms miss])
    have events: "new_events W (snd (get_quote W d)) =
                  [CacheGet (rkey d),
                   Printed (''Redis HGETALL error: '' @ g),
                   ProviderCall (if date_of dt = date_of (utc_clock W (ticks W))
                                 then today_url else random_url),
                   CacheSet (rkey d)
                     [(''text'', fetched_text q), (''author'', fetched_author q),
                      (''source'', ''zenquotes''),
                      (''stored_at'', isoformat (utc_clock W (Suc (ticks W))))],
                   Printed (''Redis HSET error: '' @ s)]"
      if "fst (fetch_zenquotes W (date_of dt = date_of (utc_clock W (ticks W)))) = Inr q" for q
      using that by (simp add: get_quote_miss_events [OF assms miss] g s)
    show ?thesis
      using get_quote_miss_result [OF assms miss] calls events by blast
  qed
  show ?thesis
    using indep down by blast
qed

text \<open>
  Claim C8. With a valid record in the store for the date (and a store that answers),
  two requests in a row for that date return the same response, built from the record;
  the store is unchanged after both; the only events are the two reads: no provider call
  and no write.
\<close>
theorem hit_path_idempotent:
  assumes "fromisoformat W d = Some dt" and "cache_hit W d"
  shows "fst (get_quote W d) =
           Inr \<lparr>date = d, quote_text = the (map_of (redis_data W (rkey d)) ''text''),
                author = the (map_of (redis_data W (rkey d)) ''author''),
                source = (case map_of (redis_data W (rkey d)) ''source'' of
                            Some s \<Rightarrow> s | None \<Rightarrow> ''zenquotes''),
                stored_at = map_of (redis_data W (rkey d)) ''stored_at''\<rparr>
    \<and> fst (get_quote (snd (get_quote W d)) d) = fst (get_quote W d)
    \<and> redis_data (snd (get_quote (snd (get_quote W d)) d)) = redis_data W
    \<and> new_events W (snd (get_quote (snd (get_quote W d)) d))
        = [CacheGet (rkey d), CacheGet (rkey d)]
    \<and> provider_calls (new_events W (snd (get_quote (snd (get_quote W d)) d))) = 0
    \<and> cache_writes (new_events W (snd (get_quote (snd (get_quote W d)) d))) = 0"
proof -
  let ?W1 = "emit (CacheGet (rkey d)) W"
  have first: "snd (get_quote W d) = ?W1"
    by (simp add: get_quote_hit [OF assms])
  have p1: "fromisoformat ?W1 d = Some dt"
    using assms by (simp add: emit_frame)
  have h1: "cache_hit ?W1 d"
    using assms by (simp add: cache_hit_eq emit_frame)
  have tr: "trace (snd (get_quote ?W1 d)) = trace W @ [CacheGet (rkey d), CacheGet (rkey d)]"
    by (simp add: get_quote_hit [OF p1 h1] trace_emit)
  have ev: "new_events W (snd (get_quote ?W1 d)) = [CacheGet (rkey d), CacheGet (rkey d)]"
    by (rule new_events_append) (rule tr)
  have r1: "fst (get_quote ?W1 d) = fst (get_quote W d)"
    by (simp add: get_quote_hit [OF p1 h1] get_quote_hit [OF assms] emit_frame)
  have d1: "redis_data (snd (get_quote ?W1 d)) = redis_data W"
    by (simp add: get_quote_hit [OF p1 h1] emit_frame)
  show ?thesis
    by (simp only: first r1 d1 ev)
       (simp add: get_quote_hit [OF assms] provider_calls_def cache_writes_def)
qed

subsection \<open>The health probe\<close>

lemma map_of_put_field: "map_of (put_field f v h) = (map_of h)(f \<mapsto> v)"
  by (induction h) auto

lemma map_of_ideal_hset_probe:
  "map_of (ideal_hset [(''ok'', ''1''), (''ts'', ts)] old) ''ok'' = Some ''1''"
  by (simp add: ideal_hset_def map_of_put_field)

lemma probe_write_eq:
  "probe_write W = (case hset_error W of Some e \<Rightarrow> Inl e | None \<Rightarrow> Inr ())"
  by (simp add: probe_write_def to_iso_now_def now_utc_def hset_eq)

lemma probe_read_eq:
  "probe_read W =
     (case hgetall_error W of
        Some e \<Rightarrow> Inl e
      | None \<Rightarrow>
          Inr (case hset_error W of
                 Some e \<Rightarrow> redis_data W health_key
               | None \<Rightarrow>
                   hset_effect W
                     [(''ok'', ''1''), (''ts'', isoformat (utc_clock W (ticks W)))]
                     (redis_data W health_key)))"
  by (simp add: probe_read_def to_iso_now_def now_utc_def hset_eq hgetall_def
      split: option.splits)

text \<open>The answer of the probe: \<^verbatim>\<open>ok\<close> is decided by the hash the read returns.\<close>

lemma health_eq:
  "fst (health W) =
     (case hset_error W of
        Some e \<Rightarrow> \<lparr>status_code = 500, ok = False, error_text = Some e\<rparr>
      | None \<Rightarrow>
          (case hgetall_error W of
             Some e \<Rightarrow> \<lparr>status_code = 500, ok = False, error_text = Some e\<rparr>
           | None \<Rightarrow>
               \<lparr>status_code = 200,
                ok = (map_of
                        (hset_effect W
                           [(''ok'', ''1''), (''ts'', isoformat (utc_clock W (ticks W)))]
                           (redis_data W health_key))
                        ''ok'' = Some ''1''),
                error_text = None\<rparr>))"
  by (simp add: health_def to_iso_now_def now_utc_def hset_eq hgetall_def emit_def
      split: option.splits)

lemma health_events:
  "new_events W (snd (health W)) =
     CacheSet health_key [(''ok'', ''1''), (''ts'', isoformat (utc_clock W (ticks W)))] #
     (case hset_error W of Some e \<Rightarrow> [] | None \<Rightarrow> [CacheGet health_key])"
  by (rule new_events_append)
     (simp add: health_def to_iso_now_def now_utc_def hset_eq hgetall_def emit_def
        split: option.splits)

text \<open>With a store that writes as Redis does, a probe that does not raise answers 200 and true.\<close>

lemma health_ideal_store:
  "hset_effect W = ideal_hset \<Longrightarrow> hset_error W = None \<Longrightarrow> hgetall_error W = None \<Longrightarrow>
   fst (health W) = \<lparr>status_code = 200, ok = True, error_text = None\<rparr>"
  by (simp add: health_eq map_of_ideal_hset_probe)

text \<open>
  Claim C9. The health probe answers 200 with \<^verbatim>\<open>ok: true\<close> exactly when the write of
  the probe hash and the read of the probe key after it both return and the hash read
  has \<^verbatim>\<open>ok\<close> equal to \<^verbatim>\<open>1\<close>. When both return, the answer is 200 and \<^verbatim>\<open>ok\<close> says whether the
  hash read has that field (so a read that does not see the write is answered 200 with
  \<^verbatim>\<open>ok: false\<close>); the hash read is what the store holds after the write, and the events are
  the write and the read on the key \<^verbatim>\<open>qotd:health\<close>. When the write or the read raises,
  the answer is 500 with \<^verbatim>\<open>ok: false\<close> and the exception's message.
\<close>
theorem health_probe_round_trip:
  "(fst (health W) = \<lparr>status_code = 200, ok = True, error_text = None\<rparr>
      \<longleftrightarrow> probe_write W = Inr ()
          \<and> (\<exists>probe. probe_read W = Inr probe \<and> map_of probe ''ok'' = Some ''1''))
   \<and> (\<forall>probe. probe_write W = Inr () \<and> probe_read W = Inr probe \<longrightarrow>
        fst (health W)
          = \<lparr>status_code = 200, ok = (map_of probe ''ok'' = Some ''1''), error_text = None\<rparr>
        \<and> probe = hset_effect W
                    [(''ok'', ''1''), (''ts'', isoformat (utc_clock W (ticks W)))]
                    (redis_data W health_key)
        \<and> new_events W (snd (health W))
            = [CacheSet health_key
                 [(''ok'', ''1''), (''ts'', isoformat (utc_clock W (ticks W)))],
               CacheGet health_key])
   \<and> (\<forall>e. probe_write W = Inl e \<longrightarrow>
        fst (health W) = \<lparr>status_code = 500, ok = False, error_text = Some e\<rparr>)
   \<and> (\<forall>e. probe_write W = Inr () \<and> probe_read W = Inl e \<longrightarrow>
        fst (health W) = \<lparr>status_code = 500, ok = False, error_text = Some e\<rparr>)"
proof (cases "hset_error W")
  case (Some e)
  then show ?thesis
    by (simp add: probe_write_eq health_eq)
next
  case None
  show ?thesis
  proof (cases "hgetall_error W")
    case (Some e)
    with None show ?thesis
      by (simp add: probe_write_eq probe_read_eq health_eq)
  next
    case read: None
    with None show ?thesis
      by (auto simp: probe_write_eq probe_read_eq health_eq health_events)
  qed
qed


subsection \<open>Running the program in the example world\<close>

lemma iso_date_new_year: "iso_date ''2024-01-01'' = Some (midnight 2024 1 1)"
  by (simp add: iso_date_def digit_val_def days_in_month_def)

lemma iso_date_new_years_eve: "iso_date ''2023-12-31'' = Some (midnight 2023 12 31)"
  by (simp add: iso_date_def digit_val_def days_in_month_def)

lemma isoformat_noon_plus_1: "isoformat (noon_plus 1) = ''2024-01-01T12:00:01+00:00''"
  by (simp add: isoformat_def noon_plus_def zero_pad_def digit_char_def replicate_numeral)

lemma date_of_noon_plus: "date_of (noon_plus n) = (2024, 1, 1)"
  by (simp add: date_of_def noon_plus_def)

lemma date_of_midnight: "date_of (midnight y m d) = (y, m, d)"
  by (simp add: date_of_def midnight_def)

lemma strip_carpe: "strip ''Carpe diem'' = ''Carpe diem''"
  by (simp add: strip_def isspace_def)

lemma strip_horace: "strip ''Horace'' = ''Horace''"
  by (simp add: strip_def isspace_def)

lemma strip_padded: "strip ''  Carpe diem '' = ''Carpe diem''"
  by (simp add: strip_def isspace_def)

lemma strip_curious: "strip ''Stay curious.'' = ''Stay curious.''"
  by (simp add: strip_def isspace_def)

lemma strip_spaces: "strip ''   '' = []"
  by (simp add: strip_def isspace_def)

lemma strip_unknown: "strip ''Unknown'' = ''Unknown''"
  by (simp add: strip_def isspace_def)

lemma loads_carpe:
  "example_loads carpe_body
     = Some (JArr [JObj [(''q'', JStr ''Carpe diem''), (''a'', JStr ''Horace'')]])"
  by (simp add: example_loads_def)

lemma loads_blank_author:
  "example_loads blank_author_body
     = Some (JArr [JObj [(''q'', JStr ''Stay curious.''), (''a'', JStr ''   '')]])"
  by (simp add: example_loads_def carpe_body_def padded_body_def blank_author_body_def)

lemma loads_padded:
  "example_loads padded_body
     = Some (JArr [JObj [(''q'', JStr ''  Carpe diem ''), (''a'', JStr [])]])"
  by (simp add: example_loads_def carpe_body_def padded_body_def)

lemma loads_empty_object: "example_loads ''{}'' = Some (JObj [])"
  by (simp add: example_loads_def carpe_body_def padded_body_def blank_author_body_def)

lemma loads_bare_number: "example_loads ''[1]'' = Some (JArr [JNum 1])"
  by (simp add: example_loads_def carpe_body_def padded_body_def blank_author_body_def)

lemma loads_empty_array: "example_loads ''[]'' = Some (JArr [])"
  by (simp add: example_loads_def carpe_body_def padded_body_def blank_author_body_def)

lemma loads_not_json: "example_loads ''<html>'' = None"
  by (simp add: example_loads_def carpe_body_def padded_body_def blank_author_body_def)

lemma fetch_answer:
  "zenquotes W = answering status body \<Longrightarrow>
   fst (fetch_zenquotes W b) = read_response W status body"
  by (simp add: fetch_zenquotes_eq answering_def)

lemma fetch_carpe:
  assumes "zenquotes W = answering 200 carpe_body" and "json_loads W = example_loads"
  shows "fst (fetch_zenquotes W b) = Inr \<lparr>fetched_text = ''Carpe diem'', fetched_author = ''Horace''\<rparr>"
  by (simp add: fetch_answer [OF assms(1)] read_response_def assms(2) loads_carpe
      first_quote_def py_or_def strip_carpe strip_horace)

lemma fetch_blank_author:
  assumes "zenquotes W = answering 200 blank_author_body" and "json_loads W = example_loads"
  shows "fst (fetch_zenquotes W b) = Inr \<lparr>fetched_text = ''Stay curious.'', fetched_author = []\<rparr>"
  by (simp add: fetch_answer [OF assms(1)] read_response_def assms(2) loads_blank_author
      first_quote_def py_or_def strip_curious strip_spaces)

lemma fetch_bare_number:
  assumes "zenquotes W = answering 200 ''[1]''" and "json_loads W = example_loads"
  shows "fst (fetch_zenquotes W b) = Inl AttributeError"
  by (simp add: fetch_answer [OF assms(1)] read_response_def assms(2) loads_bare_number
      first_quote_def)


lemma example_world_fields:
  "fromisoformat example_world = iso_date"
  "json_loads example_world = example_loads"
  "utc_clock example_world = noon_plus"
  "ticks example_world = 0"
  "zenquotes example_world = answering 200 carpe_body"
  "redis_data example_world = (\<lambda>k. [])"
  "hset_effect example_world = ideal_hset"
  "hgetall_error example_world = None"
  "hset_error example_world = None"
  "trace example_world = []"
  by (simp_all add: example_world_def)

lemma carpe_record:
  "fresh_record ''2024-01-01'' \<lparr>fetched_text = ''Carpe diem'', fetched_author = ''Horace''\<rparr>
     (isoformat (noon_plus (Suc 0)))
   = \<lparr>date = ''2024-01-01'', quote_text = ''Carpe diem'', author = ''Horace'',
      source = ''zenquotes'', stored_at = Some ''2024-01-01T12:00:01+00:00''\<rparr>"
  using isoformat_noon_plus_1 by (simp add: fresh_record_def)

text \<open>An instance of claim C1 in the example world.\<close>
theorem served_from_cache_iff_valid_entry_witness:
  "fromisoformat kind_world ''2024-01-01'' = Some (midnight 2024 1 1)
   \<and> fst (hgetall kind_world (rkey ''2024-01-01''))
       = Inr [(''text'', ''Be kind.''), (''author'', ''Anon'')]
   \<and> entry_valid [(''text'', ''Be kind.''), (''author'', ''Anon'')]
   \<and> fst (get_quote kind_world ''2024-01-01'')
       = Inr \<lparr>date = ''2024-01-01'', quote_text = ''Be kind.'', author = ''Anon'',
              source = ''zenquotes'', stored_at = None\<rparr>
   \<and> provider_calls (new_events kind_world (snd (get_quote kind_world ''2024-01-01''))) = 0
   \<and> cache_writes (new_events kind_world (snd (get_quote kind_world ''2024-01-01''))) = 0
   \<and> fromisoformat empty_text_world ''2024-01-01'' = Some (midnight 2024 1 1)
   \<and> \<not> cache_hit empty_text_world ''2024-01-01''
   \<and> provider_calls
        (new_events empty_text_world (snd (get_quote empty_text_world ''2024-01-01''))) = 1
   \<and> fst (get_quote empty_text_world ''2024-01-01'')
       = Inr \<lparr>date = ''2024-01-01'', quote_text = ''Carpe diem'', author = ''Horace'',
              source = ''zenquotes'', stored_at = Some ''2024-01-01T12:00:01+00:00''\<rparr>"
proof -
  let ?h = "[(''text'', ''Be kind.''), (''author'', ''Anon'')]"
  have p: "fromisoformat kind_world ''2024-01-01'' = Some (midnight 2024 1 1)"
    by (simp add: kind_world_def example_world_fields iso_date_new_year)
  have g: "fst (hgetall kind_world (rkey ''2024-01-01'')) = Inr ?h"
    by (simp add: hgetall_def kind_world_def example_world_fields store_with_def rkey_def)
  have v: "entry_valid ?h"
    by (simp add: entry_valid_def)
  have hit: "fst (get_quote kind_world ''2024-01-01'')
       = Inr \<lparr>date = ''2024-01-01'', quote_text = ''Be kind.'', author = ''Anon'',
              source = ''zenquotes'', stored_at = None\<rparr>
     \<and> provider_calls (new_events kind_world (snd (get_quote kind_world ''2024-01-01''))) = 0
     \<and> cache_writes (new_events kind_world (snd (get_quote kind_world ''2024-01-01''))) = 0"
    using served_from_cache_iff_valid_entry [OF p] g v
    by (simp add: provider_calls_def cache_writes_def)
  have p': "fromisoformat empty_text_world ''2024-01-01'' = Some (midnight 2024 1 1)"
    by (simp add: empty_text_world_def example_world_fields iso_date_new_year)
  have m: "\<not> cache_hit empty_text_world ''2024-01-01''"
    by (simp add: cache_hit_eq entry_valid_def empty_text_world_def example_world_fields
        store_with_def rkey_def)
  have f: "fst (fetch_zenquotes empty_text_world b)
             = Inr \<lparr>fetched_text = ''Carpe diem'', fetched_author = ''Horace''\<rparr>" for b
    by (rule fetch_carpe) (simp_all add: empty_text_world_def example_world_fields)
  have c: "utc_clock empty_text_world = noon_plus" "ticks empty_text_world = 0"
    by (simp_all add: empty_text_world_def example_world_fields)
  have miss: "provider_calls
        (new_events empty_text_world (snd (get_quote empty_text_world ''2024-01-01''))) = 1
     \<and> fst (get_quote empty_text_world ''2024-01-01'')
       = Inr \<lparr>date = ''2024-01-01'', quote_text = ''Carpe diem'', author = ''Horace'',
              source = ''zenquotes'', stored_at = Some ''2024-01-01T12:00:01+00:00''\<rparr>"
    using served_from_cache_iff_valid_entry [OF p'] m by (simp add: f c carpe_record)
  show ?thesis
    using p g v hit p' m miss by simp
qed


lemma down_world_fields:
  "fromisoformat down_world = iso_date"
  "json_loads down_world = example_loads"
  "utc_clock down_world = noon_plus"
  "ticks down_world = 0"
  "zenquotes down_world = answering 200 carpe_body"
  "hgetall_error down_world = Some ''connection refused''"
  "hset_error down_world = Some ''connection refused''"
  by (simp_all add: down_world_def example_world_fields)

text \<open>An instance of claim C2 in the example world.\<close>
theorem cache_failures_absorbed_witness:
  "fromisoformat down_world ''2024-01-01'' = Some (midnight 2024 1 1)
   \<and> hgetall_error down_world = Some ''connection refused''
   \<and> hset_error down_world = Some ''connection refused''
   \<and> fst (get_quote down_world ''2024-01-01'')
       = Inr \<lparr>date = ''2024-01-01'', quote_text = ''Carpe diem'', author = ''Horace'',
              source = ''zenquotes'', stored_at = Some ''2024-01-01T12:00:01+00:00''\<rparr>
   \<and> provider_calls (new_events down_world (snd (get_quote down_world ''2024-01-01''))) = 1
   \<and> new_events down_world (snd (get_quote down_world ''2024-01-01''))
       = [CacheGet ''quote:2024-01-01'',
          Printed ''Redis HGETALL error: connection refused'',
          ProviderCall ''https://zenquotes.io/api/today'',
          CacheSet ''quote:2024-01-01''
            [(''text'', ''Carpe diem''), (''author'', ''Horace''), (''source'', ''zenquotes''),
             (''stored_at'', ''2024-01-01T12:00:01+00:00'')],
          Printed ''Redis HSET error: connection refused'']
   \<and> fst (get_quote (down_world\<lparr>hset_error := None\<rparr>) ''2024-01-01'')
       = fst (get_quote down_world ''2024-01-01'')"
proof -
  have p: "fromisoformat down_world ''2024-01-01'' = Some (midnight 2024 1 1)"
    by (simp add: down_world_fields iso_date_new_year)
  have f: "fst (fetch_zenquotes down_world b)
             = Inr \<lparr>fetched_text = ''Carpe diem'', fetched_author = ''Horace''\<rparr>" for b
    by (rule fetch_carpe) (simp_all add: down_world_fields)
  have stamp: "isoformat (noon_plus (Suc 0)) = ''2024-01-01T12:00:01+00:00''"
    using isoformat_noon_plus_1 by simp
  note T = cache_failures_absorbed [OF p, of None]
  have indep: "fst (get_quote (down_world\<lparr>hset_error := None\<rparr>) ''2024-01-01'')
       = fst (get_quote down_world ''2024-01-01'')"
    using T by blast
  have rest: "fst (get_quote down_world ''2024-01-01'')
       = Inr \<lparr>date = ''2024-01-01'', quote_text = ''Carpe diem'', author = ''Horace'',
              source = ''zenquotes'', stored_at = Some ''2024-01-01T12:00:01+00:00''\<rparr>
     \<and> provider_calls (new_events down_world (snd (get_quote down_world ''2024-01-01''))) = 1
     \<and> new_events down_world (snd (get_quote down_world ''2024-01-01''))
       = [CacheGet ''quote:2024-01-01'',
          Printed ''Redis HGETALL error: connection refused'',
          ProviderCall ''https://zenquotes.io/api/today'',
          CacheSet ''quote:2024-01-01''
            [(''text'', ''Carpe diem''), (''author'', ''Horace''), (''source'', ''zenquotes''),
             (''stored_at'', ''2024-01-01T12:00:01+00:00'')],
          Printed ''Redis HSET error: connection refused'']"
    using T
    by (simp add: down_world_fields f fresh_record_def stamp date_of_noon_plus
        date_of_midnight rkey_def today_url_def provider_calls_def)
  show ?thesis
    using p indep rest by (simp add: down_world_fields provider_calls_def)
qed

lemma example_miss: "\<not> cache_hit example_world d"
  by (simp add: cache_hit_eq entry_valid_def example_world_fields)

lemma example_fetch:
  "fst (fetch_zenquotes example_world b)
     = Inr \<lparr>fetched_text = ''Carpe diem'', fetched_author = ''Horace''\<rparr>"
  by (rule fetch_carpe) (simp_all add: example_world_fields)

text \<open>An instance of claim C5 in the example world.\<close>
theorem endpoint_chosen_by_utc_date_witness:
  "fromisoformat example_world ''2024-01-01'' = Some (midnight 2024 1 1)
   \<and> \<not> cache_hit example_world ''2024-01-01''
   \<and> date_of (utc_clock example_world (ticks example_world)) = (2024, 1, 1)
   \<and> filter is_provider_call
        (new_events example_world (snd (get_quote example_world ''2024-01-01'')))
       = [ProviderCall ''https://zenquotes.io/api/today'']
   \<and> fromisoformat example_world ''2023-12-31'' = Some (midnight 2023 12 31)
   \<and> \<not> cache_hit example_world ''2023-12-31''
   \<and> filter is_provider_call
        (new_events example_world (snd (get_quote example_world ''2023-12-31'')))
       = [ProviderCall ''https://zenquotes.io/api/random'']"
proof -
  have p: "fromisoformat example_world ''2024-01-01'' = Some (midnight 2024 1 1)"
    by (simp add: example_world_fields iso_date_new_year)
  have q: "fromisoformat example_world ''2023-12-31'' = Some (midnight 2023 12 31)"
    by (simp add: example_world_fields iso_date_new_years_eve)
  have now: "date_of (utc_clock example_world (ticks example_world)) = (2024, 1, 1)"
    by (simp add: example_world_fields date_of_noon_plus)
  show ?thesis
    using p q now
      endpoint_chosen_by_utc_date [OF p example_miss]
      endpoint_chosen_by_utc_date [OF q example_miss]
    by (simp add: example_miss date_of_midnight)
qed

text \<open>An instance of claim C7 in the example world.\<close>
theorem storage_key_is_prefix_and_literal_date_witness:
  "rkey ''2024-01-01'' = ''quote:2024-01-01''
   \<and> rkey ''2024-01-01'' \<noteq> rkey ''2024-1-1''
   \<and> cache_keys (new_events example_world (snd (get_quote example_world ''2024-01-01'')))
       = [''quote:2024-01-01'', ''quote:2024-01-01'']
   \<and> set (cache_keys (new_events example_world (snd (get_quote example_world ''2024-01-01''))))
       = {''quote:2024-01-01''}"
proof -
  have p: "fromisoformat example_world ''2024-01-01'' = Some (midnight 2024 1 1)"
    by (simp add: example_world_fields iso_date_new_year)
  have k: "cache_keys (new_events example_world (snd (get_quote example_world ''2024-01-01'')))
       = [''quote:2024-01-01'', ''quote:2024-01-01'']"
    by (simp add: cache_keys_miss [OF p example_miss] example_fetch rkey_def)
  show ?thesis
    using storage_key_is_prefix_and_literal_date
      [of "''2024-01-01''" "''2024-1-1''" example_world] k
    by auto
qed

text \<open>An instance of claim C8 in the example world.\<close>
theorem hit_path_idempotent_witness:
  "fromisoformat kind_world ''2024-01-01'' = Some (midnight 2024 1 1)
   \<and> cache_hit kind_world ''2024-01-01''
   \<and> fst (get_quote kind_world ''2024-01-01'')
       = Inr \<lparr>date = ''2024-01-01'', quote_text = ''Be kind.'', author = ''Anon'',
              source = ''zenquotes'', stored_at = None\<rparr>
   \<and> fst (get_quote (snd (get_quote kind_world ''2024-01-01'')) ''2024-01-01'')
       = Inr \<lparr>date = ''2024-01-01'', quote_text = ''Be kind.'', author = ''Anon'',
              source = ''zenquotes'', stored_at = None\<rparr>
   \<and> redis_data (snd (get_quote (snd (get_quote kind_world ''2024-01-01'')) ''2024-01-01''))
       = redis_data kind_world
   \<and> provider_calls
        (new_events kind_world
           (snd (get_quote (snd (get_quote kind_world ''2024-01-01'')) ''2024-01-01''))) = 0"
proof -
  have p: "fromisoformat kind_world ''2024-01-01'' = Some (midnight 2024 1 1)"
    by (simp add: kind_world_def example_world_fields iso_date_new_year)
  have h: "cache_hit kind_world ''2024-01-01''"
    by (simp add: cache_hit_eq entry_valid_def kind_world_def example_world_fields
        store_with_def rkey_def)
  have s: "redis_data kind_world (rkey ''2024-01-01'')
             = [(''text'', ''Be kind.''), (''author'', ''Anon'')]"
    by (simp add: kind_world_def store_with_def rkey_def)
  show ?thesis
    using p h hit_path_idempotent [OF p h] by (simp add: s provider_calls_def)
qed

text \<open>An instance of claim C9 in the example world.\<close>
theorem health_probe_round_trip_witness:
  "probe_write example_world = Inr ()
   \<and> probe_read example_world = Inr [(''ok'', ''1''), (''ts'', ''2024-01-01T12:00:00+00:00'')]
   \<and> fst (health example_world) = \<lparr>status_code = 200, ok = True, error_text = None\<rparr>
   \<and> probe_write lossy_world = Inr ()
   \<and> probe_read lossy_world = Inr []
   \<and> fst (health lossy_world) = \<lparr>status_code = 200, ok = False, error_text = None\<rparr>
   \<and> probe_write down_world = Inl ''connection refused''
   \<and> fst (health down_world)
       = \<lparr>status_code = 500, ok = False, error_text = Some ''connection refused''\<rparr>
   \<and> probe_write unreadable_world = Inr ()
   \<and> probe_read unreadable_world = Inl ''timeout''
   \<and> fst (health unreadable_world)
       = \<lparr>status_code = 500, ok = False, error_text = Some ''timeout''\<rparr>"
proof -
  have stamp: "isoformat (noon_plus 0) = ''2024-01-01T12:00:00+00:00''"
    by (simp add: isoformat_def noon_plus_def zero_pad_def digit_char_def replicate_numeral)
  have w1: "probe_write example_world = Inr ()"
    by (simp add: probe_write_eq example_world_fields)
  have r1: "probe_read example_world
              = Inr [(''ok'', ''1''), (''ts'', ''2024-01-01T12:00:00+00:00'')]"
    by (simp add: probe_read_eq example_world_fields ideal_hset_def stamp)
  have w2: "probe_write lossy_world = Inr ()"
    by (simp add: probe_write_eq lossy_world_def example_world_fields)
  have r2: "probe_read lossy_world = Inr []"
    by (simp add: probe_read_eq lossy_world_def example_world_fields)
  have w3: "probe_write down_world = Inl ''connection refused''"
    by (simp add: probe_write_eq down_world_fields)
  have w4: "probe_write unreadable_world = Inr ()"
    by (simp add: probe_write_eq unreadable_world_def example_world_fields)
  have r4: "probe_read unreadable_world = Inl ''timeout''"
    by (simp add: probe_read_eq unreadable_world_def example_world_fields)
  show ?thesis
    using health_probe_round_trip [of example_world] health_probe_round_trip [of lossy_world]
      health_probe_round_trip [of down_world] health_probe_round_trip [of unreadable_world]
      w1 r1 w2 r2 w3 w4 r4
    by simp
qed

text \<open>An instance of claim C10 in the example world.\<close>
theorem date_echoed_never_stored_witness:
  "written_fields (new_events example_world (snd (get_quote example_world ''2024-01-01'')))
     = [[''text'', ''author'', ''source'', ''stored_at'']]
   \<and> fst (get_quote example_world ''2024-01-01'')
       = Inr \<lparr>date = ''2024-01-01'', quote_text = ''Carpe diem'', author = ''Horace'',
              source = ''zenquotes'', stored_at = Some ''2024-01-01T12:00:01+00:00''\<rparr>
   \<and> date \<lparr>date = ''2024-01-01'', quote_text = ''Carpe diem'', author = ''Horace'',
            source = ''zenquotes'', stored_at = Some ''2024-01-01T12:00:01+00:00''\<rparr>
       = ''2024-01-01''
   \<and> fst (get_quote kind_world ''2024-01-01'')
       = Inr \<lparr>date = ''2024-01-01'', quote_text = ''Be kind.'', author = ''Anon'',
              source = ''zenquotes'', stored_at = None\<rparr>
   \<and> written_fields (new_events kind_world (snd (get_quote kind_world ''2024-01-01''))) = []"
proof -
  have p: "fromisoformat example_world ''2024-01-01'' = Some (midnight 2024 1 1)"
    by (simp add: example_world_fields iso_date_new_year)
  have w: "written_fields (new_events example_world (snd (get_quote example_world ''2024-01-01'')))
     = [[''text'', ''author'', ''source'', ''stored_at'']]"
    by (simp add: written_fields_miss [OF p example_miss] example_fetch)
  have r: "fst (get_quote example_world ''2024-01-01'')
       = Inr \<lparr>date = ''2024-01-01'', quote_text = ''Carpe diem'', author = ''Horace'',
              source = ''zenquotes'', stored_at = Some ''2024-01-01T12:00:01+00:00''\<rparr>"
    by (simp add: get_quote_miss_result [OF p example_miss] example_fetch example_world_fields
        carpe_record)
  have p': "fromisoformat kind_world ''2024-01-01'' = Some (midnight 2024 1 1)"
    by (simp add: kind_world_def example_world_fields iso_date_new_year)
  have h: "cache_hit kind_world ''2024-01-01''"
    by (simp add: cache_hit_eq entry_valid_def kind_world_def example_world_fields
        store_with_def rkey_def)
  have s: "redis_data kind_world (rkey ''2024-01-01'')
             = [(''text'', ''Be kind.''), (''author'', ''Anon'')]"
    by (simp add: kind_world_def store_with_def rkey_def)
  have r': "fst (get_quote kind_world ''2024-01-01'')
       = Inr \<lparr>date = ''2024-01-01'', quote_text = ''Be kind.'', author = ''Anon'',
              source = ''zenquotes'', stored_at = None\<rparr>"
    by (simp add: get_quote_hit [OF p' h] s)
  have w': "written_fields (new_events kind_world (snd (get_quote kind_world ''2024-01-01''))) = []"
    by (simp add: get_quote_hit_events [OF p' h])
  show ?thesis
    using date_echoed_never_stored [of example_world "''2024-01-01''"]
      date_echoed_never_stored [of kind_world "''2024-01-01''"] w r r' w'
    by simp
qed


subsection \<open>What the provider's answer becomes\<close>

text \<open>
  The first item of the array, when it is an object whose \<^verbatim>\<open>q\<close> and \<^verbatim>\<open>a\<close> are strings:
  the text is \<^verbatim>\<open>q\<close> stripped; the author is \<^verbatim>\<open>Unknown\<close> when \<^verbatim>\<open>a\<close> is the empty string, and
  \<^verbatim>\<open>a\<close> stripped otherwise. The default is chosen before the strip, so an \<^verbatim>\<open>a\<close> of
  whitespace only gives the empty author.
\<close>

lemma first_quote_strings:
  assumes "map_of kvs ''q'' = Some (JStr q)" and "map_of kvs ''a'' = Some (JStr a)"
  shows "first_quote (JObj kvs) =
     Inr \<lparr>fetched_text = strip q,
          fetched_author = (if a = [] then ''Unknown'' else strip a)\<rparr>"
  using assms by (simp add: first_quote_def py_or_def strip_unknown)

text \<open>An author that is absent or \<^verbatim>\<open>null\<close> is \<^verbatim>\<open>Unknown\<close>.\<close>

lemma first_quote_author_absent:
  assumes "map_of kvs ''q'' = Some (JStr q)" and "map_of kvs ''a'' \<in> {None, Some JNull}"
  shows "first_quote (JObj kvs) = Inr \<lparr>fetched_text = strip q, fetched_author = ''Unknown''\<rparr>"
  using assms by (auto simp: first_quote_def py_or_def strip_unknown)

text \<open>An item that is not an object has no \<^verbatim>\<open>get\<close>.\<close>

lemma first_quote_not_object:
  "(\<forall>kvs. item \<noteq> JObj kvs) \<Longrightarrow> first_quote item = Inl AttributeError"
  by (cases item) (simp_all add: first_quote_def)

lemma py_strip_never_http: "py_strip v \<noteq> Inl (HTTPException code detail)"
  by (cases v) simp_all

lemma py_get_never_http: "py_get item k \<noteq> Inl (HTTPException code detail)"
  by (cases item) simp_all

lemma first_quote_never_http: "first_quote item \<noteq> Inl (HTTPException code detail)"
  using py_get_never_http [of item] py_strip_never_http
  by (auto simp: first_quote_def split: sum.splits)

text \<open>
  The gateway error of \<^verbatim>\<open>fetch_zenquotes\<close>: raised exactly when the status is not 200,
  the body is not JSON, or the value parsed is not a non-empty array.
\<close>

lemma read_response_upstream_error_iff:
  "(\<exists>detail. read_response W status body = Inl (HTTPException 502 detail))
     \<longleftrightarrow> status \<noteq> 200 \<or> json_loads W body = None
         \<or> (\<exists>v. json_loads W body = Some v \<and> \<not> nonempty_array v)"
proof (cases "status = 200")
  case False
  then show ?thesis
    by (simp add: read_response_def)
next
  case True
  show ?thesis
  proof (cases "json_loads W body")
    case None
    with True show ?thesis
      by (simp add: read_response_def)
  next
    case (Some v)
    show ?thesis
    proof (cases "nonempty_array v")
      case False
      with True Some show ?thesis
        by (cases v rule: nonempty_array.cases) (simp_all add: read_response_def)
    next
      case yes: True
      then obtain item rest where v: "v = JArr (item # rest)"
        by (cases v rule: nonempty_array.cases) simp_all
      with True Some yes show ?thesis
        by (simp add: read_response_def first_quote_never_http)
    qed
  qed
qed

text \<open>The failures of the provider that the program turns into the gateway error.\<close>

lemma upstream_failure_examples:
  "read_response example_world 500 ''Internal Server Error''
     = Inl (HTTPException 502 ''ZenQuotes 500: Internal Server Error'')"
  "read_response example_world 200 ''<html>''
     = Inl (HTTPException 502 ''ZenQuotes non-JSON: <html>'')"
  "read_response example_world 200 ''[]'' = Inl (HTTPException 502 ''Unexpected ZenQuotes payload'')"
  "read_response example_world 200 ''{}'' = Inl (HTTPException 502 ''Unexpected ZenQuotes payload'')"
  by (simp_all add: read_response_def example_world_fields loads_not_json loads_empty_array
      loads_empty_object str_int_def digit_char_def)

text \<open>A quote with spaces around its text and an empty author.\<close>

lemma trimmed_and_defaulted_example:
  "read_response example_world 200 padded_body
     = Inr \<lparr>fetched_text = ''Carpe diem'', fetched_author = ''Unknown''\<rparr>"
  by (simp add: read_response_def example_world_fields loads_padded first_quote_def py_or_def
      strip_padded strip_unknown)

text \<open>
  Claim C4, at a provider reply whose author is three spaces: the record built on the
  miss has the empty author, not \<^verbatim>\<open>Unknown\<close>, and so has the hash written for it.
\<close>
theorem whitespace_author_gives_empty_author:
  "example_loads blank_author_body
     = Some (JArr [JObj [(''q'', JStr ''Stay curious.''), (''a'', JStr ''   '')]])
   \<and> fst (get_quote blank_author_world ''2024-01-01'')
       = Inr \<lparr>date = ''2024-01-01'', quote_text = ''Stay curious.'', author = [],
              source = ''zenquotes'', stored_at = Some ''2024-01-01T12:00:01+00:00''\<rparr>
   \<and> redis_data (snd (get_quote blank_author_world ''2024-01-01'')) ''quote:2024-01-01''
       = [(''text'', ''Stay curious.''), (''author'', []), (''source'', ''zenquotes''),
          (''stored_at'', ''2024-01-01T12:00:01+00:00'')]"
proof -
  have fields:
    "fromisoformat blank_author_world = iso_date"
    "json_loads blank_author_world = example_loads"
    "utc_clock blank_author_world = noon_plus"
    "ticks blank_author_world = 0"
    "zenquotes blank_author_world = answering 200 blank_author_body"
    "redis_data blank_author_world = (\<lambda>k. [])"
    "hset_effect blank_author_world = ideal_hset"
    "hgetall_error blank_author_world = None"
    "hset_error blank_author_world = None"
    by (simp_all add: blank_author_world_def example_world_fields)
  have p: "fromisoformat blank_author_world ''2024-01-01'' = Some (midnight 2024 1 1)"
    by (simp add: fields iso_date_new_year)
  have m: "\<not> cache_hit blank_author_world ''2024-01-01''"
    by (simp add: cache_hit_eq entry_valid_def fields)
  have f: "fst (fetch_zenquotes blank_author_world b)
             = Inr \<lparr>fetched_text = ''Stay curious.'', fetched_author = []\<rparr>" for b
    by (rule fetch_blank_author) (simp_all add: fields)
  have stamp: "isoformat (noon_plus (Suc 0)) = ''2024-01-01T12:00:01+00:00''"
    using isoformat_noon_plus_1 by simp
  have r: "fst (get_quote blank_author_world ''2024-01-01'')
       = Inr \<lparr>date = ''2024-01-01'', quote_text = ''Stay curious.'', author = [],
              source = ''zenquotes'', stored_at = Some ''2024-01-01T12:00:01+00:00''\<rparr>"
    by (simp add: get_quote_miss_result [OF p m] f fields fresh_record_def stamp)
  let ?W1 = "snd (try_cache blank_author_world ''quote:2024-01-01'' ''2024-01-01'')"
  have f1: "fst (fetch_zenquotes ?W1 b)
             = Inr \<lparr>fetched_text = ''Stay curious.'', fetched_author = []\<rparr>" for b
    by (rule fetch_blank_author) (simp_all add: try_cache_frame fields)
  have s: "redis_data (snd (get_quote blank_author_world ''2024-01-01'')) ''quote:2024-01-01''
       = [(''text'', ''Stay curious.''), (''author'', []), (''source'', ''zenquotes''),
          (''stored_at'', ''2024-01-01T12:00:01+00:00'')]"
    by (simp add: get_quote_miss [OF p m] fetch_and_store_eq f1 try_cache_frame fields stamp
        rkey_def ideal_hset_def)
  show ?thesis
    using loads_blank_author r s by simp
qed

text \<open>
  Claim C6, at a provider reply of status 200 whose body is the array \<^verbatim>\<open>[1]\<close>: the
  request fails with \<^verbatim>\<open>AttributeError\<close>, which is not the gateway error.
\<close>
theorem number_item_fails_with_attribute_error:
  "example_loads ''[1]'' = Some (JArr [JNum 1])
   \<and> fst (get_quote bare_number_world ''2024-01-01'') = Inl AttributeError
   \<and> \<not> is_upstream_error AttributeError"
proof -
  have fields:
    "fromisoformat bare_number_world = iso_date"
    "json_loads bare_number_world = example_loads"
    "utc_clock bare_number_world = noon_plus"
    "ticks bare_number_world = 0"
    "zenquotes bare_number_world = answering 200 ''[1]''"
    "redis_data bare_number_world = (\<lambda>k. [])"
    "hgetall_error bare_number_world = None"
    by (simp_all add: bare_number_world_def example_world_fields)
  have p: "fromisoformat bare_number_world ''2024-01-01'' = Some (midnight 2024 1 1)"
    by (simp add: fields iso_date_new_year)
  have m: "\<not> cache_hit bare_number_world ''2024-01-01''"
    by (simp add: cache_hit_eq entry_valid_def fields)
  have f: "fst (fetch_zenquotes bare_number_world b) = Inl AttributeError" for b
    by (rule fetch_bare_number) (simp_all add: fields)
  show ?thesis
    by (simp add: get_quote_miss_result [OF p m] f loads_bare_number)
qed

end
